theory Spec2Isabelle
  imports Main
begin

section \<open>JavaScript values used by the program\<close>

text \<open>
  Strings are lists of characters; \<open>startsWith\<close> and \<open>includes\<close> of the source compare
  code units one by one, which is what the two functions below do on \<open>char\<close>.
  A value that may be \<open>undefined\<close> is an \<open>option\<close>. The test \<open>if (v)\<close> on such a string
  holds when the value is defined and is not the empty string.
\<close>

fun startsWith :: "string \<Rightarrow> string \<Rightarrow> bool" where
  "startsWith s [] = True"
| "startsWith [] (p # ps) = False"
| "startsWith (c # cs) (p # ps) = (c = p \<and> startsWith cs ps)"

fun includes_js :: "string \<Rightarrow> string \<Rightarrow> bool" where
  "includes_js [] sub = startsWith [] sub"
| "includes_js (c # cs) sub = (startsWith (c # cs) sub \<or> includes_js cs sub)"

fun split_js :: "char \<Rightarrow> string \<Rightarrow> string list" where
  "split_js sep [] = [[]]"
| "split_js sep (c # cs) =
     (if c = sep then [] # split_js sep cs
      else (case split_js sep cs of
              [] \<Rightarrow> [[c]]
            | piece # pieces \<Rightarrow> (c # piece) # pieces))"

fun at_index :: "'a list \<Rightarrow> nat \<Rightarrow> 'a option" where
  "at_index [] i = None"
| "at_index (x # xs) 0 = Some x"
| "at_index (x # xs) (Suc i) = at_index xs i"

definition truthy :: "string option \<Rightarrow> bool" where
  "truthy v = (case v of None \<Rightarrow> False | Some s \<Rightarrow> s \<noteq> [])"

text \<open>\<open>v || d\<close> on a string that may be undefined.\<close>

definition or_else :: "string option \<Rightarrow> string \<Rightarrow> string" where
  "or_else v d = (case v of None \<Rightarrow> d | Some s \<Rightarrow> if s = [] then d else s)"

text \<open>
  A thrown value is seen by the program only through its \<open>message\<close> property: the text of
  an \<open>Error\<close>, or nothing for a value that has no such property (the progress event that
  \<open>reader.onerror\<close> passes to \<open>reject\<close>).
\<close>

datatype thrown = Thrown (message: "string option")

section \<open>The request adapter (services/geminiService.ts)\<close>

record File =
  name :: string
  type :: string

record inlineData =
  data :: "string option"
  mimeType :: string

record request =
  model :: string
  imagePart :: inlineData
  textPart :: string

record candidate =
  finishReason :: "string option"

text \<open>The property \<open>text\<close> of the response is the field \<open>response_text\<close>.\<close>

record response =
  response_text :: "string option"
  candidates :: "candidate list option"

text \<open>
  What the file reader reports for a file: \<open>loadend\<close> with \<open>reader.result\<close> (a string, or
  something that is not a string), or \<open>error\<close>, which fires before \<open>loadend\<close> and so settles
  the promise first.
\<close>

datatype reader_event = OnLoadEnd "string option" | OnError

text \<open>
  Everything outside the program that one call of the adapter depends on: the credential
  in the process-wide configuration, the file reader, the remote service (it answers a
  request with a response or rejects), and the text of the engine's \<open>TypeError\<close> for a
  property read on \<open>undefined\<close>.
\<close>

record world =
  API_KEY :: "string option"
  readAsDataURL :: "File \<Rightarrow> reader_event"
  generateContent :: "request \<Rightarrow> thrown + response"
  typeErrorMessage :: string

definition fileToGenerativePart :: "world \<Rightarrow> File \<Rightarrow> thrown + inlineData" where
  "fileToGenerativePart w f =
     (case readAsDataURL w f of
        OnError \<Rightarrow> Inl (Thrown None)
      | OnLoadEnd None \<Rightarrow> Inl (Thrown (Some ''Failed to read file as data URL.''))
      | OnLoadEnd (Some url) \<Rightarrow>
          Inr \<lparr>data = at_index (split_js CHR '','' url) 1, mimeType = type f\<rparr>)"

definition instruction :: string where
  "instruction =
     ''Analyze this image and describe it in extreme detail. The description must be a creative, evocative, and inspiring prompt suitable for an advanced text-to-image AI like Midjourney or DALL-E.'' @ [CHR 0x0A] @
     '''' @ [CHR 0x0A] @
     ''            Your description should cover:'' @ [CHR 0x0A] @
     ''            - **Subject:** What is the main focus? Describe it with rich adjectives.'' @ [CHR 0x0A] @
     ''            - **Composition:** How is the shot framed (e.g., close-up, wide shot, rule of thirds)?'' @ [CHR 0x0A] @
     ''            - **Environment/Background:** What surrounds the subject? Describe the setting.'' @ [CHR 0x0A] @
     ''            - **Lighting:** Describe the quality of light (e.g., soft morning light, dramatic studio lighting, neon glow).'' @ [CHR 0x0A] @
     ''            - **Color Palette:** What are the dominant and accent colors?'' @ [CHR 0x0A] @
     ''            - **Style/Medium:** Is it photorealistic, an oil painting, digital art, 3D render, etc.?'' @ [CHR 0x0A] @
     ''            - **Mood/Atmosphere:** What feeling does the image evoke (e.g., serene, chaotic, nostalgic, futuristic)?'' @ [CHR 0x0A] @
     ''            '' @ [CHR 0x0A] @
     ''            Combine these elements into a single, cohesive paragraph. Write the response in English.''"

definition firstFinishReason :: "response \<Rightarrow> string option" where
  "firstFinishReason r =
     (case candidates r of
        None \<Rightarrow> None
      | Some cs \<Rightarrow> (case at_index cs 0 of None \<Rightarrow> None | Some c \<Rightarrow> finishReason c))"

text \<open>The \<open>else\<close> branch of \<open>if (text)\<close>: the error thrown for a response with no text.\<close>

definition empty_response_error :: "response \<Rightarrow> thrown" where
  "empty_response_error resp =
     (if firstFinishReason resp = Some ''SAFETY''
      then Thrown (Some ''Could not generate a prompt. The image was blocked due to safety policies.'')
      else Thrown (Some ''Failed to generate prompt. The model returned an empty response.''))"

text \<open>
  The body of the \<open>try\<close> block: the value returned or thrown, and the requests sent to the
  remote service on the way.
\<close>

definition try_block :: "world \<Rightarrow> File \<Rightarrow> (thrown + string) \<times> request list" where
  "try_block w f =
     (case fileToGenerativePart w f of
        Inl e \<Rightarrow> (Inl e, [])
      | Inr part \<Rightarrow>
          (let req = \<lparr>model = ''gemini-3-flash-preview'', imagePart = part,
                      textPart = instruction\<rparr>
           in (case generateContent w req of
                 Inl e \<Rightarrow> (Inl e, [req])
               | Inr resp \<Rightarrow>
                   (case response_text resp of
                      None \<Rightarrow> (Inl (empty_response_error resp), [req])
                    | Some t \<Rightarrow>
                        if t \<noteq> [] then (Inr t, [req])
                        else (Inl (empty_response_error resp), [req])))))"

text \<open>
  The \<open>catch\<close> block always throws. Reading \<open>includes\<close> from a message that is undefined
  is itself a \<open>TypeError\<close>, which leaves the block in place of the two errors it builds.
\<close>

definition catch_block :: "world \<Rightarrow> thrown \<Rightarrow> thrown" where
  "catch_block w e =
     (case message e of
        None \<Rightarrow> Thrown (Some (typeErrorMessage w))
      | Some m \<Rightarrow>
          if includes_js m ''API key not valid''
          then Thrown (Some ''The provided API key is not valid. Please check your configuration.'')
          else Thrown (Some (or_else (Some m) ''An error occurred while communicating with the AI model.'')))"

definition generatePromptFromImage :: "world \<Rightarrow> File \<Rightarrow> (thrown + string) \<times> request list" where
  "generatePromptFromImage w imageFile =
     (if \<not> truthy (API_KEY w)
      then (Inl (Thrown (Some ''API key is not configured. Please set up your environment variables.'')), [])
      else (case try_block w imageFile of
              (Inr t, reqs) \<Rightarrow> (Inr t, reqs)
            | (Inl e, reqs) \<Rightarrow> (Inl (catch_block w e), reqs)))"

section \<open>The page (App.tsx)\<close>

datatype Status = Initial | ImageSelected | Loading | Success | Error

text \<open>
  The five state variables of the component, and what the handlers touch outside it: the
  system clipboard, the requests sent over the network, the promises of the adapter that
  have not been delivered to their handler yet, and the delays of the timers that are set.
\<close>

record session =
  imageFile :: "File option"
  prompt :: string
  status :: Status
  error :: string
  isCopied :: bool

record page = session +
  clipboard :: "string option"
  network :: "request list"
  promises :: "(thrown + string) list"
  timeouts :: "nat list"

definition initial_page :: page where
  "initial_page =
     \<lparr>imageFile = None, prompt = [], status = Initial, error = [], isCopied = False,
      clipboard = None, network = [], promises = [], timeouts = []\<rparr>"

definition handleImageChange :: "File option \<Rightarrow> page \<Rightarrow> page" where
  "handleImageChange selected p =
     (case selected of
        None \<Rightarrow> p
      | Some f \<Rightarrow>
          if \<not> startsWith (type f) ''image/''
          then p\<lparr>error := ''Please upload a valid image file (PNG, JPG, etc.).'', status := Error\<rparr>
          else p\<lparr>imageFile := Some f, prompt := [], error := [], status := ImageSelected\<rparr>)"

text \<open>
  \<open>handleGeneratePrompt\<close> up to its \<open>await\<close>: the adapter is called (with what it sends),
  and its promise is left pending.
\<close>

definition handleGeneratePrompt_begin :: "world \<Rightarrow> page \<Rightarrow> page" where
  "handleGeneratePrompt_begin w p =
     (case imageFile p of
        None \<Rightarrow> p
      | Some f \<Rightarrow>
          (case generatePromptFromImage w f of
             (outcome, reqs) \<Rightarrow>
               p\<lparr>status := Loading, error := [], prompt := [],
                 network := network p @ reqs, promises := promises p @ [outcome]\<rparr>))"

text \<open>\<open>handleGeneratePrompt\<close> after its \<open>await\<close>, on the outcome of the adapter.\<close>

definition handleGeneratePrompt_resume :: "thrown + string \<Rightarrow> page \<Rightarrow> page" where
  "handleGeneratePrompt_resume outcome p =
     (case outcome of
        Inr generatedPrompt \<Rightarrow> p\<lparr>prompt := generatedPrompt, status := Success\<rparr>
      | Inl e \<Rightarrow>
          p\<lparr>error := or_else (message e) ''An unexpected error occurred. Please try again.'',
            status := Error\<rparr>)"

text \<open>The pending promise number \<open>i\<close> settles and its handler resumes.\<close>

definition settle :: "nat \<Rightarrow> page \<Rightarrow> page" where
  "settle i p =
     (case at_index (promises p) i of
        None \<Rightarrow> p
      | Some outcome \<Rightarrow>
          handleGeneratePrompt_resume outcome
            (p\<lparr>promises := take i (promises p) @ drop (Suc i) (promises p)\<rparr>))"

text \<open>The handler run from its call to its end, nothing else happening in between.\<close>

definition handleGeneratePrompt :: "world \<Rightarrow> page \<Rightarrow> page" where
  "handleGeneratePrompt w p =
     (case imageFile p of
        None \<Rightarrow> p
      | Some f \<Rightarrow>
          (case generatePromptFromImage w f of
             (outcome, reqs) \<Rightarrow>
               handleGeneratePrompt_resume outcome
                 (p\<lparr>status := Loading, error := [], prompt := [],
                    network := network p @ reqs\<rparr>)))"

text \<open>
  The button that calls the handler: it is rendered when an image is held and disabled
  while the status is \<open>loading\<close>; a click on a button that is absent or disabled reaches
  no handler.
\<close>

definition generateDisabled :: "page \<Rightarrow> bool" where
  "generateDisabled p = (status p = Loading)"

definition clickGenerate_begin :: "world \<Rightarrow> page \<Rightarrow> page" where
  "clickGenerate_begin w p =
     (if imageFile p \<noteq> None \<and> \<not> generateDisabled p then handleGeneratePrompt_begin w p else p)"

definition clickGenerate :: "world \<Rightarrow> page \<Rightarrow> page" where
  "clickGenerate w p =
     (if imageFile p \<noteq> None \<and> \<not> generateDisabled p then handleGeneratePrompt w p else p)"

definition handleCopy :: "page \<Rightarrow> page" where
  "handleCopy p =
     (if prompt p \<noteq> []
      then p\<lparr>isCopied := True, clipboard := Some (prompt p), timeouts := timeouts p @ [2000]\<rparr>
      else p)"

text \<open>The timer number \<open>i\<close> fires: its callback is \<open>setIsCopied(false)\<close>.\<close>

definition timeout_fires :: "nat \<Rightarrow> page \<Rightarrow> page" where
  "timeout_fires i p =
     (case at_index (timeouts p) i of
        None \<Rightarrow> p
      | Some delay \<Rightarrow>
          p\<lparr>isCopied := False, timeouts := take i (timeouts p) @ drop (Suc i) (timeouts p)\<rparr>)"

definition resetState :: "page \<Rightarrow> page" where
  "resetState p = p\<lparr>imageFile := None, prompt := [], error := [], status := Initial\<rparr>"

text \<open>What the page shows of the prompt and of the error.\<close>

definition displayedPrompt :: "page \<Rightarrow> string option" where
  "displayedPrompt p = (if status p = Success \<and> prompt p \<noteq> [] then Some (prompt p) else None)"

definition displayedError :: "page \<Rightarrow> string option" where
  "displayedError p = (if status p = Error \<and> error p \<noteq> [] then Some (error p) else None)"

subsection \<open>Sequences of operations\<close>

datatype event =
    ImageChange "File option"
  | GeneratePrompt world
  | ClickGenerate world
  | Settle nat
  | Copy
  | Reset
  | TimeoutFires nat

fun apply_event :: "event \<Rightarrow> page \<Rightarrow> page" where
  "apply_event (ImageChange selected) p = handleImageChange selected p"
| "apply_event (GeneratePrompt w) p = handleGeneratePrompt_begin w p"
| "apply_event (ClickGenerate w) p = clickGenerate_begin w p"
| "apply_event (Settle i) p = settle i p"
| "apply_event Copy p = handleCopy p"
| "apply_event Reset p = resetState p"
| "apply_event (TimeoutFires i) p = timeout_fires i p"

fun run :: "event list \<Rightarrow> page \<Rightarrow> page" where
  "run [] p = p"
| "run (e # es) p = run es (apply_event e p)"

subsection \<open>Invariants of the page\<close>

text \<open>
  An error state has a message; a success state has a prompt, and no pending promise of the
  adapter holds the empty text.
\<close>

definition error_inv :: "page \<Rightarrow> bool" where
  "error_inv p = (status p \<noteq> Error \<or> error p \<noteq> [])"

definition prompt_inv :: "page \<Rightarrow> bool" where
  "prompt_inv p =
     ((status p \<noteq> Success \<or> prompt p \<noteq> []) \<and> list_all (\<lambda>outcome. outcome \<noteq> Inr []) (promises p))"

subsection \<open>Inputs for the examples\<close>

definition example_file :: File where
  "example_file = \<lparr>name = ''photo.png'', type = ''image/png''\<rparr>"

definition notes_file :: File where
  "notes_file = \<lparr>name = ''notes.txt'', type = ''text/plain''\<rparr>"

definition example_world :: "string option \<Rightarrow> (thrown + response) \<Rightarrow> world" where
  "example_world key answer =
     \<lparr>API_KEY = key,
      readAsDataURL = (\<lambda>f. OnLoadEnd (Some ''data:image/png;base64,iVBORw0KGgo='')),
      generateContent = (\<lambda>req. answer),
      typeErrorMessage = ''error.message is undefined''\<rparr>"

definition retriever_response :: response where
  "retriever_response = \<lparr>response_text = Some ''A golden retriever...'', candidates = None\<rparr>"

definition blocked_response :: response where
  "blocked_response =
     \<lparr>response_text = None, candidates = Some [\<lparr>finishReason = Some ''SAFETY''\<rparr>]\<rparr>"

definition empty_response :: response where
  "empty_response =
     \<lparr>response_text = Some [], candidates = Some [\<lparr>finishReason = Some ''STOP''\<rparr>]\<rparr>"

definition answering_world :: "response \<Rightarrow> world" where
  "answering_world resp = example_world (Some ''secret'') (Inr resp)"

definition rejecting_world :: "string \<Rightarrow> world" where
  "rejecting_world m = example_world (Some ''secret'') (Inl (Thrown (Some m)))"

definition selected_page :: page where
  "selected_page = handleImageChange (Some example_file) initial_page"

definition loading_page :: page where
  "loading_page = handleGeneratePrompt_begin (answering_world retriever_response) selected_page"

definition success_page :: page where
  "success_page = handleGeneratePrompt (answering_world retriever_response) selected_page"

definition example_part :: inlineData where
  "example_part = \<lparr>data = Some ''iVBORw0KGgo='', mimeType = ''image/png''\<rparr>"

definition example_request :: request where
  "example_request =
     \<lparr>model = ''gemini-3-flash-preview'', imagePart = example_part, textPart = instruction\<rparr>"

lemmas example_defs =
  example_file_def notes_file_def example_world_def retriever_response_def
  blocked_response_def empty_response_def answering_world_def rejecting_world_def
  selected_page_def loading_page_def success_page_def example_part_def example_request_def
  handleImageChange_def initial_page_def

section \<open>Basic facts\<close>

lemma or_else_nonempty: "d \<noteq> [] \<Longrightarrow> or_else v d \<noteq> []"
  by (simp add: or_else_def split: option.split)

lemma at_index_append_length: "at_index (xs @ [x]) (length xs) = Some x"
  by (induction xs) simp_all

lemma at_index_length: "at_index xs (length xs) = None"
  by (induction xs) simp_all

lemma at_index_in_set: "at_index xs i = Some x \<Longrightarrow> x \<in> set xs"
  by (induction xs i rule: at_index.induct) auto

text \<open>The adapter returns a text only after \<open>if (text)\<close>, so never the empty one.\<close>

lemma try_block_text_nonempty: "try_block w f = (Inr t, reqs) \<Longrightarrow> t \<noteq> []"
  by (auto simp: try_block_def Let_def split: sum.splits option.splits if_splits)

lemma generatePromptFromImage_text_nonempty:
  "generatePromptFromImage w f = (Inr t, reqs) \<Longrightarrow> t \<noteq> []"
  by (auto simp: generatePromptFromImage_def split: if_splits prod.splits sum.splits
      dest: try_block_text_nonempty)

text \<open>
  The handler run to its end is its first half followed at once by the settling of the
  promise it has just left, and the same holds for the button.
\<close>

lemma handleGeneratePrompt_as_events:
  "handleGeneratePrompt w p = settle (length (promises p)) (handleGeneratePrompt_begin w p)"
  by (simp add: handleGeneratePrompt_def handleGeneratePrompt_begin_def settle_def
      at_index_append_length at_index_length split: option.split prod.split)

lemma clickGenerate_as_events:
  "clickGenerate w p = settle (length (promises p)) (clickGenerate_begin w p)"
  by (simp add: clickGenerate_def clickGenerate_begin_def handleGeneratePrompt_as_events
      settle_def at_index_length)

lemma clickGenerate_enabled:
  "imageFile p \<noteq> None \<Longrightarrow> status p \<noteq> Loading \<Longrightarrow> clickGenerate w p = handleGeneratePrompt w p"
  by (simp add: clickGenerate_def generateDisabled_def)

lemma example_fileToGenerativePart:
  "fileToGenerativePart (example_world key answer) example_file = Inr example_part"
  by (simp add: fileToGenerativePart_def example_defs)

lemma example_generateContent:
  "generateContent (rejecting_world m) req = Inl (Thrown (Some m))"
  by (simp add: example_defs)

lemma success_page_eq:
  "success_page =
     initial_page\<lparr>imageFile := Some example_file, prompt := ''A golden retriever...'',
       status := Success, network := [example_request]\<rparr>"
  by (simp add: handleGeneratePrompt_def generatePromptFromImage_def try_block_def
      fileToGenerativePart_def Let_def truthy_def handleGeneratePrompt_resume_def example_defs)

lemma not_valid_not_in_safety:
  "\<not> includes_js ''Could not generate a prompt. The image was blocked due to safety policies.''
       ''API key not valid''"
  by simp

lemma not_valid_not_in_empty:
  "\<not> includes_js ''Failed to generate prompt. The model returned an empty response.''
       ''API key not valid''"
  by simp

text \<open>The two errors thrown inside \<open>try\<close> pass through \<open>catch\<close> with their messages.\<close>

lemma catch_block_empty_response_error:
  "catch_block w (empty_response_error resp) = empty_response_error resp"
  unfolding catch_block_def empty_response_error_def or_else_def
  using not_valid_not_in_safety not_valid_not_in_empty by simp

section \<open>The credential\<close>

text \<open>
  Claim C1. Whatever file is held, when the credential is absent from the configuration
  (undefined, or the empty string, which the test \<open>!apiKey\<close> treats alike) at the time of
  the call, the adapter throws the configuration error at once and sends nothing, and
  generation ends in the error state with the message that the API key is not configured.
\<close>

theorem missing_credential:
  assumes "imageFile p = Some f" and "\<not> truthy (API_KEY w)"
  shows "generatePromptFromImage w f =
           (Inl (Thrown (Some ''API key is not configured. Please set up your environment variables.'')), [])
         \<and> status (handleGeneratePrompt w p) = Error
         \<and> error (handleGeneratePrompt w p) =
             ''API key is not configured. Please set up your environment variables.''
         \<and> network (handleGeneratePrompt w p) = network p"
  using assms
  by (simp add: generatePromptFromImage_def handleGeneratePrompt_def
      handleGeneratePrompt_resume_def or_else_def)

theorem missing_credential_witness:
  "imageFile selected_page = Some example_file
   \<and> \<not> truthy (API_KEY (example_world None (Inl (Thrown None))))
   \<and> status (handleGeneratePrompt (example_world None (Inl (Thrown None))) selected_page) = Error
   \<and> error (handleGeneratePrompt (example_world None (Inl (Thrown None))) selected_page) =
             ''API key is not configured. Please set up your environment variables.''
   \<and> network (handleGeneratePrompt (example_world None (Inl (Thrown None))) selected_page) = []"
  using missing_credential [of selected_page example_file "example_world None (Inl (Thrown None))"]
  by (simp add: example_defs truthy_def)

section \<open>No second request while loading\<close>

text \<open>
  Claim C2. While the status is \<open>loading\<close> and an image is held, asking for generation does
  nothing: the page is unchanged, so no further request is sent and no further promise is
  left pending. The guard is the \<open>disabled\<close> property of the button; the handler itself
  tests only that an image is held.
\<close>

theorem loading_click_is_noop:
  assumes "status p = Loading" and "imageFile p = Some f"
  shows "clickGenerate_begin w p = p \<and> clickGenerate w p = p
         \<and> network (clickGenerate w p) = network p
         \<and> promises (clickGenerate_begin w p) = promises p"
  using assms by (simp add: clickGenerate_begin_def clickGenerate_def generateDisabled_def)

theorem loading_click_is_noop_witness:
  "status loading_page = Loading \<and> imageFile loading_page = Some example_file
   \<and> clickGenerate (answering_world blocked_response) loading_page = loading_page
   \<and> length (network (clickGenerate (answering_world blocked_response) loading_page)) = 1"
  using loading_click_is_noop [of loading_page example_file "answering_world blocked_response"]
  by (simp add: example_defs handleGeneratePrompt_begin_def generatePromptFromImage_def
      truthy_def try_block_def fileToGenerativePart_def Let_def)

text \<open>
  The handler called on its own, past the button, has no such guard: on the same page it
  sends a second request.
\<close>

lemma handler_alone_sends_again:
  "status loading_page = Loading
   \<and> length (network loading_page) = 1
   \<and> length (network (handleGeneratePrompt (answering_world blocked_response) loading_page)) = 2"
  by (simp add: example_defs handleGeneratePrompt_def handleGeneratePrompt_begin_def
      generatePromptFromImage_def truthy_def try_block_def fileToGenerativePart_def Let_def
      handleGeneratePrompt_resume_def catch_block_empty_response_error)

section \<open>A generated text\<close>

text \<open>
  Claim C3. When the adapter returns a text, that text is not empty, generation ends in the
  state \<open>success\<close>, and the prompt stored and shown is that text, unchanged.
\<close>

theorem success_stores_text:
  assumes "imageFile p = Some f" and "fst (generatePromptFromImage w f) = Inr t"
  shows "t \<noteq> [] \<and> status (handleGeneratePrompt w p) = Success
         \<and> prompt (handleGeneratePrompt w p) = t
         \<and> displayedPrompt (handleGeneratePrompt w p) = Some t"
proof -
  obtain reqs where g: "generatePromptFromImage w f = (Inr t, reqs)"
    using assms(2) by (cases "generatePromptFromImage w f") simp
  then have "t \<noteq> []" by (rule generatePromptFromImage_text_nonempty)
  then show ?thesis
    using assms(1) g
    by (simp add: handleGeneratePrompt_def handleGeneratePrompt_resume_def displayedPrompt_def)
qed

theorem success_stores_text_witness:
  "imageFile selected_page = Some example_file
   \<and> fst (generatePromptFromImage (answering_world retriever_response) example_file) =
       Inr ''A golden retriever...''
   \<and> status (handleGeneratePrompt (answering_world retriever_response) selected_page) = Success
   \<and> prompt (handleGeneratePrompt (answering_world retriever_response) selected_page) =
       ''A golden retriever...''
   \<and> displayedPrompt (handleGeneratePrompt (answering_world retriever_response) selected_page) =
       Some ''A golden retriever...''"
proof -
  have sel: "imageFile selected_page = Some example_file"
    by (simp add: example_defs)
  have out: "fst (generatePromptFromImage (answering_world retriever_response) example_file) =
       Inr ''A golden retriever...''"
    by (simp add: generatePromptFromImage_def try_block_def fileToGenerativePart_def Let_def
        truthy_def example_defs)
  show ?thesis
    using success_stores_text [OF sel out] sel out by simp
qed

text \<open>The text the adapter returns is the text of the response, whenever that is not empty.\<close>

lemma adapter_returns_response_text:
  assumes "truthy (API_KEY w)" and "fileToGenerativePart w f = Inr part"
    and "generateContent w \<lparr>model = ''gemini-3-flash-preview'', imagePart = part,
           textPart = instruction\<rparr> = Inr resp"
    and "response_text resp = Some t" and "t \<noteq> []"
  shows "generatePromptFromImage w f =
           (Inr t, [\<lparr>model = ''gemini-3-flash-preview'', imagePart = part, textPart = instruction\<rparr>])"
  using assms by (simp add: generatePromptFromImage_def try_block_def Let_def)

section \<open>A response without text\<close>

lemma adapter_on_empty_response:
  assumes "truthy (API_KEY w)" and "fileToGenerativePart w f = Inr part"
    and "generateContent w \<lparr>model = ''gemini-3-flash-preview'', imagePart = part,
           textPart = instruction\<rparr> = Inr resp"
    and "\<not> truthy (response_text resp)"
  shows "generatePromptFromImage w f =
           (Inl (empty_response_error resp),
            [\<lparr>model = ''gemini-3-flash-preview'', imagePart = part, textPart = instruction\<rparr>])"
  using assms
  by (simp add: generatePromptFromImage_def try_block_def Let_def truthy_def
      catch_block_empty_response_error split: option.splits)

text \<open>
  Claim C4. When the remote service answers with a response whose text is empty (or
  absent), generation ends in the error state; the message says that the image was blocked
  due to safety policies when the finish reason of the first candidate is \<open>SAFETY\<close>, and
  that the model returned an empty response in every other case.
\<close>

theorem empty_response_is_error:
  assumes "imageFile p = Some f" and "truthy (API_KEY w)"
    and "fileToGenerativePart w f = Inr part"
    and "generateContent w \<lparr>model = ''gemini-3-flash-preview'', imagePart = part,
           textPart = instruction\<rparr> = Inr resp"
    and "\<not> truthy (response_text resp)"
  shows "status (handleGeneratePrompt w p) = Error
         \<and> error (handleGeneratePrompt w p) =
             (if firstFinishReason resp = Some ''SAFETY''
              then ''Could not generate a prompt. The image was blocked due to safety policies.''
              else ''Failed to generate prompt. The model returned an empty response.'')
         \<and> displayedError (handleGeneratePrompt w p) = Some (error (handleGeneratePrompt w p))"
  using assms(1) adapter_on_empty_response [OF assms(2-5)]
  by (simp add: handleGeneratePrompt_def handleGeneratePrompt_resume_def empty_response_error_def
      or_else_def displayedError_def)

theorem empty_response_is_error_witness:
  "(status (handleGeneratePrompt (answering_world blocked_response) selected_page) = Error
    \<and> error (handleGeneratePrompt (answering_world blocked_response) selected_page) =
         ''Could not generate a prompt. The image was blocked due to safety policies.''
    \<and> includes_js (error (handleGeneratePrompt (answering_world blocked_response) selected_page))
         ''blocked due to safety'')
   \<and> (status (handleGeneratePrompt (answering_world empty_response) selected_page) = Error
    \<and> error (handleGeneratePrompt (answering_world empty_response) selected_page) =
         ''Failed to generate prompt. The model returned an empty response.'')"
proof -
  have sel: "imageFile selected_page = Some example_file"
    by (simp add: example_defs)
  have key: "truthy (API_KEY (answering_world r))" for r
    by (simp add: example_defs truthy_def)
  have part: "fileToGenerativePart (answering_world r) example_file = Inr example_part" for r
    by (simp add: answering_world_def example_fileToGenerativePart)
  have ans: "generateContent (answering_world r) \<lparr>model = ''gemini-3-flash-preview'',
      imagePart = example_part, textPart = instruction\<rparr> = Inr r" for r
    by (simp add: example_defs)
  have b: "\<not> truthy (response_text blocked_response)"
    and e: "\<not> truthy (response_text empty_response)"
    by (simp_all add: example_defs truthy_def)
  have rb: "firstFinishReason blocked_response = Some ''SAFETY''"
    and re: "firstFinishReason empty_response \<noteq> Some ''SAFETY''"
    by (simp_all add: example_defs firstFinishReason_def)
  show ?thesis
    using empty_response_is_error [OF sel key part ans b]
      empty_response_is_error [OF sel key part ans e] rb re
    by simp
qed

section \<open>A file that is not an image\<close>

text \<open>
  Claim C5. When the selected file has a declared media type that does not begin with
  \<open>image/\<close>, the selection ends in the error state with a message that mentions
  \<open>valid image file\<close>, and nothing is sent: the requests and the pending promises are as
  they were.
\<close>

theorem invalid_file_is_error:
  assumes "\<not> startsWith (type f) ''image/''"
  shows "status (handleImageChange (Some f) p) = Error
         \<and> error (handleImageChange (Some f) p) =
             ''Please upload a valid image file (PNG, JPG, etc.).''
         \<and> includes_js (error (handleImageChange (Some f) p)) ''valid image file''
         \<and> network (handleImageChange (Some f) p) = network p
         \<and> promises (handleImageChange (Some f) p) = promises p"
  using assms by (simp add: handleImageChange_def)

theorem invalid_file_is_error_witness:
  "\<not> startsWith (type notes_file) ''image/''
   \<and> status (handleImageChange (Some notes_file) initial_page) = Error
   \<and> includes_js (error (handleImageChange (Some notes_file) initial_page)) ''valid image file''
   \<and> network (handleImageChange (Some notes_file) initial_page) = []"
proof -
  have n: "\<not> startsWith (type notes_file) ''image/''"
    by (simp add: notes_file_def)
  show ?thesis
    using invalid_file_is_error [OF n, of initial_page] n by (simp add: initial_page_def)
qed

section \<open>A request that fails\<close>

text \<open>
  Claim C6, as stated, fails where the failure of the remote service has the empty message:
  the adapter then throws the fixed text of line 76 in place of the message of the
  failure.
\<close>

theorem transport_empty_message_counterexample:
  "truthy (API_KEY (rejecting_world []))
   \<and> generateContent (rejecting_world []) example_request = Inl (Thrown (Some []))
   \<and> \<not> includes_js [] ''API key not valid''
   \<and> fst (generatePromptFromImage (rejecting_world []) example_file) =
       Inl (Thrown (Some ''An error occurred while communicating with the AI model.''))
   \<and> snd (generatePromptFromImage (rejecting_world []) example_file) = [example_request]
   \<and> fst (generatePromptFromImage (rejecting_world []) example_file) \<noteq> Inl (Thrown (Some []))"
  by (simp add: generatePromptFromImage_def try_block_def fileToGenerativePart_def Let_def
      catch_block_def or_else_def truthy_def example_defs)

text \<open>
  Claim C6, amended. When the call to the remote service fails with a message, the adapter
  throws the error that the API key is not valid if the message contains
  \<open>API key not valid\<close> (a text that differs from the one for a key that is not configured);
  otherwise it throws an error with the message of the failure if that is not empty, and
  with the fixed text \<open>An error occurred while communicating with the AI model.\<close> if it is
  empty. One request has been sent.
\<close>

theorem transport_failure_outcome:
  assumes "truthy (API_KEY w)" and "fileToGenerativePart w f = Inr part"
    and "generateContent w \<lparr>model = ''gemini-3-flash-preview'', imagePart = part,
           textPart = instruction\<rparr> = Inl (Thrown (Some m))"
  shows "generatePromptFromImage w f =
           (Inl (Thrown (Some
              (if includes_js m ''API key not valid''
               then ''The provided API key is not valid. Please check your configuration.''
               else if m = [] then ''An error occurred while communicating with the AI model.''
               else m))),
            [\<lparr>model = ''gemini-3-flash-preview'', imagePart = part, textPart = instruction\<rparr>])
         \<and> ''The provided API key is not valid. Please check your configuration.'' \<noteq>
             ''API key is not configured. Please set up your environment variables.''"
  using assms
  by (simp add: generatePromptFromImage_def try_block_def Let_def catch_block_def or_else_def)

theorem transport_failure_outcome_witness:
  "fst (generatePromptFromImage
          (rejecting_world ''API key not valid. Please pass a valid API key.'') example_file) =
     Inl (Thrown (Some ''The provided API key is not valid. Please check your configuration.''))
   \<and> fst (generatePromptFromImage (rejecting_world ''Failed to fetch'') example_file) =
     Inl (Thrown (Some ''Failed to fetch''))
   \<and> fst (generatePromptFromImage (rejecting_world []) example_file) =
     Inl (Thrown (Some ''An error occurred while communicating with the AI model.''))"
proof -
  have key: "truthy (API_KEY (rejecting_world m))" for m
    by (simp add: example_defs truthy_def)
  have part: "fileToGenerativePart (rejecting_world m) example_file = Inr example_part" for m
    by (simp add: rejecting_world_def example_fileToGenerativePart)
  note t = transport_failure_outcome [OF key part example_generateContent]
  have a: "includes_js ''API key not valid. Please pass a valid API key.'' ''API key not valid''"
    and b: "\<not> includes_js ''Failed to fetch'' ''API key not valid''"
    and c: "\<not> includes_js [] ''API key not valid''"
    by simp_all
  show ?thesis
    using t [of "''API key not valid. Please pass a valid API key.''"]
      t [of "''Failed to fetch''"] t [of "[]"] a b c
    by simp
qed

section \<open>Every error state has a message\<close>

text \<open>
  Whatever the adapter throws, the handler ends in the error state, with a message that
  is not empty and is shown.
\<close>

lemma failure_sets_message:
  assumes "imageFile p = Some f" and "fst (generatePromptFromImage w f) = Inl e"
  shows "status (handleGeneratePrompt w p) = Error \<and> error (handleGeneratePrompt w p) \<noteq> []
         \<and> displayedError (handleGeneratePrompt w p) = Some (error (handleGeneratePrompt w p))"
proof -
  obtain reqs where g: "generatePromptFromImage w f = (Inl e, reqs)"
    using assms(2) by (cases "generatePromptFromImage w f") simp
  have "or_else (message e) ''An unexpected error occurred. Please try again.'' \<noteq> []"
    by (rule or_else_nonempty) simp
  then show ?thesis
    using assms(1) g
    by (simp add: handleGeneratePrompt_def handleGeneratePrompt_resume_def displayedError_def)
qed

text \<open>Each operation keeps the invariant, at any moment and in any order.\<close>

lemma resume_error_inv: "error_inv (handleGeneratePrompt_resume outcome p)"
proof (cases outcome)
  case (Inl e)
  have "or_else (message e) ''An unexpected error occurred. Please try again.'' \<noteq> []"
    by (rule or_else_nonempty) simp
  with Inl show ?thesis by (simp add: error_inv_def handleGeneratePrompt_resume_def)
next
  case (Inr t)
  then show ?thesis by (simp add: error_inv_def handleGeneratePrompt_resume_def)
qed

lemma begin_error_inv: "error_inv p \<Longrightarrow> error_inv (handleGeneratePrompt_begin w p)"
  by (simp add: error_inv_def handleGeneratePrompt_begin_def split: option.split prod.split)

lemma apply_event_error_inv: "error_inv p \<Longrightarrow> error_inv (apply_event e p)"
proof (cases e)
  case (ImageChange selected)
  assume "error_inv p"
  with ImageChange show ?thesis
    by (simp add: error_inv_def handleImageChange_def split: option.split)
next
  case (GeneratePrompt w)
  assume "error_inv p"
  with GeneratePrompt show ?thesis by (simp add: begin_error_inv)
next
  case (ClickGenerate w)
  assume "error_inv p"
  with ClickGenerate show ?thesis by (simp add: clickGenerate_begin_def begin_error_inv)
next
  case (Settle i)
  assume "error_inv p"
  with Settle show ?thesis by (simp add: settle_def resume_error_inv split: option.split)
next
  case Copy
  assume "error_inv p"
  with Copy show ?thesis by (simp add: error_inv_def handleCopy_def)
next
  case Reset
  then show ?thesis by (simp add: error_inv_def resetState_def)
next
  case (TimeoutFires i)
  assume "error_inv p"
  with TimeoutFires show ?thesis
    by (simp add: error_inv_def timeout_fires_def split: option.split)
qed

lemma run_error_inv: "error_inv p \<Longrightarrow> error_inv (run evs p)"
  by (induction evs arbitrary: p) (simp_all add: apply_event_error_inv)

text \<open>
  The adapter returns a text on one path only: the credential is there, the file is read,
  and the remote service answers with a text that is not empty. On every other path it
  throws.
\<close>

lemma adapter_fails_unless_text:
  assumes "\<not> (truthy (API_KEY w)
            \<and> (\<exists>part resp. fileToGenerativePart w g = Inr part
                 \<and> generateContent w \<lparr>model = ''gemini-3-flash-preview'', imagePart = part,
                      textPart = instruction\<rparr> = Inr resp
                 \<and> truthy (response_text resp)))"
  shows "\<exists>e. fst (generatePromptFromImage w g) = Inl e"
proof (cases "truthy (API_KEY w)")
  case False
  then show ?thesis by (simp add: generatePromptFromImage_def)
next
  case True
  with assms have no: "\<And>part resp. fileToGenerativePart w g = Inr part \<Longrightarrow>
      generateContent w \<lparr>model = ''gemini-3-flash-preview'', imagePart = part,
        textPart = instruction\<rparr> = Inr resp \<Longrightarrow> \<not> truthy (response_text resp)"
    by blast
  have "\<exists>e reqs. try_block w g = (Inl e, reqs)"
  proof (cases "fileToGenerativePart w g")
    case (Inl e0)
    then show ?thesis by (simp add: try_block_def)
  next
    case (Inr part)
    show ?thesis
    proof (cases "generateContent w \<lparr>model = ''gemini-3-flash-preview'', imagePart = part,
        textPart = instruction\<rparr>")
      case (Inl e0)
      with Inr show ?thesis by (simp add: try_block_def Let_def)
    next
      case r: (Inr resp)
      from no [OF Inr r] have "\<not> truthy (response_text resp)" .
      with Inr r show ?thesis
        by (simp add: try_block_def Let_def truthy_def split: option.splits)
    qed
  qed
  then obtain e reqs where "try_block w g = (Inl e, reqs)" by blast
  with True show ?thesis by (simp add: generatePromptFromImage_def)
qed

text \<open>A promise that settles late with a failure does the same to the page it finds.\<close>

lemma settle_failure_sets_message:
  assumes "at_index (promises p) i = Some (Inl e)"
  shows "status (settle i p) = Error \<and> error (settle i p) \<noteq> []"
proof -
  have "or_else (message e) ''An unexpected error occurred. Please try again.'' \<noteq> []"
    by (rule or_else_nonempty) simp
  with assms show ?thesis
    by (simp add: settle_def handleGeneratePrompt_resume_def)
qed

text \<open>
  Claim C7. Every failure ends in the error state with an error message that is not empty,
  and no page in the error state is without one:
  \<^item> after any sequence of operations from the initial page (selections, requests for
    generation, promises settling in any order, copies, resets, timers), a page in the
    error state holds a message that is not empty, and shows it;
  \<^item> selecting a file that is not an image sets the error state and such a message;
  \<^item> whatever the adapter throws (for a missing or an invalid credential, a safety block,
    an empty result, a failure of the transport or of the file reader), the handler sets
    the error state and such a message;
  \<^item> the adapter throws unless the remote service has answered with a text, so generation
    then ends in the error state with such a message;
  \<^item> a pending promise that settles with a failure sets the error state and such a message
    on whatever page it finds.
\<close>

theorem error_message_nonempty:
  "(status (run evs initial_page) = Error \<longrightarrow>
      error (run evs initial_page) \<noteq> []
      \<and> displayedError (run evs initial_page) = Some (error (run evs initial_page)))
   \<and> (\<not> startsWith (type f) ''image/'' \<longrightarrow>
      status (handleImageChange (Some f) p) = Error
      \<and> error (handleImageChange (Some f) p) \<noteq> [])
   \<and> (imageFile p = Some g \<and> fst (generatePromptFromImage w g) = Inl e \<longrightarrow>
      status (handleGeneratePrompt w p) = Error \<and> error (handleGeneratePrompt w p) \<noteq> []
      \<and> displayedError (handleGeneratePrompt w p) = Some (error (handleGeneratePrompt w p)))
   \<and> (imageFile p = Some g
       \<and> \<not> (truthy (API_KEY w)
            \<and> (\<exists>part resp. fileToGenerativePart w g = Inr part
                 \<and> generateContent w \<lparr>model = ''gemini-3-flash-preview'', imagePart = part,
                      textPart = instruction\<rparr> = Inr resp
                 \<and> truthy (response_text resp))) \<longrightarrow>
      status (handleGeneratePrompt w p) = Error \<and> error (handleGeneratePrompt w p) \<noteq> [])
   \<and> (at_index (promises p) i = Some (Inl e) \<longrightarrow>
      status (settle i p) = Error \<and> error (settle i p) \<noteq> [])"
proof -
  have "error_inv initial_page" by (simp add: error_inv_def initial_page_def)
  then have "error_inv (run evs initial_page)" by (rule run_error_inv)
  then have reach: "status (run evs initial_page) = Error \<longrightarrow>
      error (run evs initial_page) \<noteq> []
      \<and> displayedError (run evs initial_page) = Some (error (run evs initial_page))"
    by (simp add: error_inv_def displayedError_def)
  have invalid: "\<not> startsWith (type f) ''image/'' \<longrightarrow>
      status (handleImageChange (Some f) p) = Error
      \<and> error (handleImageChange (Some f) p) \<noteq> []"
    by (simp add: handleImageChange_def)
  have thrown: "imageFile p = Some g \<and> fst (generatePromptFromImage w g) = Inl e \<longrightarrow>
      status (handleGeneratePrompt w p) = Error \<and> error (handleGeneratePrompt w p) \<noteq> []
      \<and> displayedError (handleGeneratePrompt w p) = Some (error (handleGeneratePrompt w p))"
    using failure_sets_message [of p g w e] by blast
  have unless: "imageFile p = Some g
       \<and> \<not> (truthy (API_KEY w)
            \<and> (\<exists>part resp. fileToGenerativePart w g = Inr part
                 \<and> generateContent w \<lparr>model = ''gemini-3-flash-preview'', imagePart = part,
                      textPart = instruction\<rparr> = Inr resp
                 \<and> truthy (response_text resp))) \<longrightarrow>
      status (handleGeneratePrompt w p) = Error \<and> error (handleGeneratePrompt w p) \<noteq> []"
  proof
    assume a: "imageFile p = Some g
       \<and> \<not> (truthy (API_KEY w)
            \<and> (\<exists>part resp. fileToGenerativePart w g = Inr part
                 \<and> generateContent w \<lparr>model = ''gemini-3-flash-preview'', imagePart = part,
                      textPart = instruction\<rparr> = Inr resp
                 \<and> truthy (response_text resp)))"
    then obtain e' where "fst (generatePromptFromImage w g) = Inl e'"
      using adapter_fails_unless_text [of w g] by blast
    with a show "status (handleGeneratePrompt w p) = Error
        \<and> error (handleGeneratePrompt w p) \<noteq> []"
      using failure_sets_message [of p g w e'] by blast
  qed
  have late: "at_index (promises p) i = Some (Inl e) \<longrightarrow>
      status (settle i p) = Error \<and> error (settle i p) \<noteq> []"
    using settle_failure_sets_message [of p i e] by blast
  from reach invalid thrown unless late show ?thesis by blast
qed

theorem error_message_nonempty_witness:
  "(status (run [ImageChange (Some example_file), GeneratePrompt (rejecting_world ''Failed to fetch''),
                Settle 0] initial_page) = Error
    \<and> error (run [ImageChange (Some example_file), GeneratePrompt (rejecting_world ''Failed to fetch''),
                Settle 0] initial_page) = ''Failed to fetch'')
   \<and> (\<not> startsWith (type notes_file) ''image/''
    \<and> status (handleImageChange (Some notes_file) initial_page) = Error
    \<and> error (handleImageChange (Some notes_file) initial_page) \<noteq> [])
   \<and> (\<not> truthy (API_KEY (example_world None (Inl (Thrown None))))
    \<and> status (handleGeneratePrompt (example_world None (Inl (Thrown None))) selected_page) = Error
    \<and> error (handleGeneratePrompt (example_world None (Inl (Thrown None))) selected_page) \<noteq> [])
   \<and> (fst (generatePromptFromImage
             (rejecting_world ''API key not valid. Please pass a valid API key.'') example_file) =
        Inl (Thrown (Some ''The provided API key is not valid. Please check your configuration.''))
    \<and> status (handleGeneratePrompt
                (rejecting_world ''API key not valid. Please pass a valid API key.'') selected_page) = Error
    \<and> error (handleGeneratePrompt
                (rejecting_world ''API key not valid. Please pass a valid API key.'') selected_page) \<noteq> [])
   \<and> (fst (generatePromptFromImage (answering_world blocked_response) example_file) =
        Inl (Thrown (Some ''Could not generate a prompt. The image was blocked due to safety policies.''))
    \<and> status (handleGeneratePrompt (answering_world blocked_response) selected_page) = Error
    \<and> error (handleGeneratePrompt (answering_world blocked_response) selected_page) \<noteq> [])
   \<and> (fst (generatePromptFromImage (answering_world empty_response) example_file) =
        Inl (Thrown (Some ''Failed to generate prompt. The model returned an empty response.''))
    \<and> status (handleGeneratePrompt (answering_world empty_response) selected_page) = Error
    \<and> error (handleGeneratePrompt (answering_world empty_response) selected_page) \<noteq> [])
   \<and> (fst (generatePromptFromImage (rejecting_world []) example_file) =
        Inl (Thrown (Some ''An error occurred while communicating with the AI model.''))
    \<and> status (handleGeneratePrompt (rejecting_world []) selected_page) = Error
    \<and> error (handleGeneratePrompt (rejecting_world []) selected_page) \<noteq> [])
   \<and> (at_index (promises (handleGeneratePrompt_begin (rejecting_world ''Failed to fetch'')
          selected_page)) 0 = Some (Inl (Thrown (Some ''Failed to fetch'')))
    \<and> status (settle 0 (handleGeneratePrompt_begin (rejecting_world ''Failed to fetch'')
          selected_page)) = Error
    \<and> error (settle 0 (handleGeneratePrompt_begin (rejecting_world ''Failed to fetch'')
          selected_page)) \<noteq> [])"
proof -
  have sel: "imageFile selected_page = Some example_file"
    by (simp add: example_defs)
  have a: "includes_js ''API key not valid. Please pass a valid API key.'' ''API key not valid''"
    and b: "\<not> includes_js ''Failed to fetch'' ''API key not valid''"
    and c: "\<not> includes_js [] ''API key not valid''"
    by simp_all
  note adapter = generatePromptFromImage_def try_block_def fileToGenerativePart_def Let_def
    catch_block_def or_else_def truthy_def example_defs
  have r: "run [ImageChange (Some example_file), GeneratePrompt (rejecting_world ''Failed to fetch''),
                Settle 0] initial_page =
           initial_page\<lparr>imageFile := Some example_file, error := ''Failed to fetch'',
             status := Error, network := [example_request]\<rparr>"
    using b
    by (simp add: handleGeneratePrompt_begin_def settle_def handleGeneratePrompt_resume_def adapter)
  have reached: "status (run [ImageChange (Some example_file),
        GeneratePrompt (rejecting_world ''Failed to fetch''), Settle 0] initial_page) = Error
      \<and> error (run [ImageChange (Some example_file),
        GeneratePrompt (rejecting_world ''Failed to fetch''), Settle 0] initial_page) =
          ''Failed to fetch''"
    by (simp only: r) simp
  have nf: "\<not> startsWith (type notes_file) ''image/''"
    by (simp add: notes_file_def)
  have nokey: "\<not> truthy (API_KEY (example_world None (Inl (Thrown None))))"
    by (simp add: example_defs truthy_def)
  have invalid: "fst (generatePromptFromImage
        (rejecting_world ''API key not valid. Please pass a valid API key.'') example_file) =
      Inl (Thrown (Some ''The provided API key is not valid. Please check your configuration.''))"
    using a by (simp add: adapter)
  have blocked: "fst (generatePromptFromImage (answering_world blocked_response) example_file) =
      Inl (Thrown (Some ''Could not generate a prompt. The image was blocked due to safety policies.''))"
    using not_valid_not_in_safety
    by (simp add: adapter empty_response_error_def firstFinishReason_def)
  have empty: "fst (generatePromptFromImage (answering_world empty_response) example_file) =
      Inl (Thrown (Some ''Failed to generate prompt. The model returned an empty response.''))"
    using not_valid_not_in_empty
    by (simp add: adapter empty_response_error_def firstFinishReason_def)
  have transport: "fst (generatePromptFromImage (rejecting_world []) example_file) =
      Inl (Thrown (Some ''An error occurred while communicating with the AI model.''))"
    using c by (simp add: adapter)
  have pending: "at_index (promises (handleGeneratePrompt_begin
        (rejecting_world ''Failed to fetch'') selected_page)) 0 =
      Some (Inl (Thrown (Some ''Failed to fetch'')))"
    using b by (simp add: handleGeneratePrompt_begin_def adapter)
  note t = error_message_nonempty [where p = selected_page and g = example_file]
  show ?thesis
    using error_message_nonempty [where evs = "[ImageChange (Some example_file),
        GeneratePrompt (rejecting_world ''Failed to fetch''), Settle 0]"]
      error_message_nonempty [where f = notes_file and p = initial_page]
      t [where w = "example_world None (Inl (Thrown None))"]
      t [where w = "rejecting_world ''API key not valid. Please pass a valid API key.''"
           and e = "Thrown (Some ''The provided API key is not valid. Please check your configuration.'')"]
      t [where w = "answering_world blocked_response"
           and e = "Thrown (Some ''Could not generate a prompt. The image was blocked due to safety policies.'')"]
      t [where w = "answering_world empty_response"
           and e = "Thrown (Some ''Failed to generate prompt. The model returned an empty response.'')"]
      t [where w = "rejecting_world []"
           and e = "Thrown (Some ''An error occurred while communicating with the AI model.'')"]
      error_message_nonempty [where i = 0 and e = "Thrown (Some ''Failed to fetch'')"
           and p = "handleGeneratePrompt_begin (rejecting_world ''Failed to fetch'') selected_page"]
      sel reached nf nokey invalid blocked empty transport pending
    by blast
qed

section \<open>Copying the prompt\<close>

text \<open>
  Claim C8. When the prompt is not empty, copying writes that prompt to the clipboard, sets
  the flag \<open>isCopied\<close> and sets one timer of 2000 milliseconds whose firing clears the flag;
  status, image, prompt and error message are unchanged, and so are the requests sent and
  the pending promises. The write to the clipboard is taken to succeed.
\<close>

theorem copy_writes_prompt:
  assumes "prompt p \<noteq> []"
  shows "clipboard (handleCopy p) = Some (prompt p) \<and> isCopied (handleCopy p)
         \<and> timeouts (handleCopy p) = timeouts p @ [2000]
         \<and> \<not> isCopied (timeout_fires (length (timeouts p)) (handleCopy p))
         \<and> status (handleCopy p) = status p \<and> imageFile (handleCopy p) = imageFile p
         \<and> prompt (handleCopy p) = prompt p \<and> error (handleCopy p) = error p
         \<and> network (handleCopy p) = network p \<and> promises (handleCopy p) = promises p
         \<and> timeout_fires (length (timeouts p)) (handleCopy p) =
             p\<lparr>isCopied := False, clipboard := Some (prompt p)\<rparr>"
  using assms by (simp add: handleCopy_def timeout_fires_def at_index_append_length)

theorem copy_writes_prompt_witness:
  "prompt success_page \<noteq> []
   \<and> clipboard (handleCopy success_page) = Some ''A golden retriever...''
   \<and> isCopied (handleCopy success_page)
   \<and> timeouts (handleCopy success_page) = [2000]
   \<and> \<not> isCopied (timeout_fires 0 (handleCopy success_page))
   \<and> status (handleCopy success_page) = Success"
proof -
  note sp = success_page_eq
  have ne: "prompt success_page \<noteq> []"
    by (simp add: sp)
  show ?thesis
    using copy_writes_prompt [OF ne] ne by (simp add: sp initial_page_def)
qed

section \<open>Every success state has a prompt\<close>

lemma list_all_remove_at:
  "list_all P xs \<Longrightarrow> list_all P (take i xs @ drop (Suc i) xs)"
  by (auto simp: list_all_iff dest: in_set_takeD in_set_dropD)

lemma begin_prompt_inv: "prompt_inv p \<Longrightarrow> prompt_inv (handleGeneratePrompt_begin w p)"
  by (auto simp: prompt_inv_def handleGeneratePrompt_begin_def
      dest: generatePromptFromImage_text_nonempty split: option.split prod.split)

lemma settle_prompt_inv:
  assumes "prompt_inv p"
  shows "prompt_inv (settle i p)"
proof (cases "at_index (promises p) i")
  case None
  with assms show ?thesis by (simp add: settle_def)
next
  case (Some outcome)
  then have "outcome \<in> set (promises p)" by (rule at_index_in_set)
  with assms have ne: "outcome \<noteq> Inr []"
    by (auto simp: prompt_inv_def list_all_iff)
  from assms have "list_all (\<lambda>outcome. outcome \<noteq> Inr []) (promises p)"
    by (simp add: prompt_inv_def)
  then have rest: "list_all (\<lambda>outcome. outcome \<noteq> Inr [])
      (take i (promises p) @ drop (Suc i) (promises p))"
    by (rule list_all_remove_at)
  show ?thesis
    using Some ne rest
    by (cases outcome) (auto simp: settle_def prompt_inv_def handleGeneratePrompt_resume_def)
qed

lemma apply_event_prompt_inv: "prompt_inv p \<Longrightarrow> prompt_inv (apply_event e p)"
proof (cases e)
  case (ImageChange selected)
  assume "prompt_inv p"
  with ImageChange show ?thesis
    by (simp add: prompt_inv_def handleImageChange_def split: option.split)
next
  case (GeneratePrompt w)
  assume "prompt_inv p"
  with GeneratePrompt show ?thesis by (simp add: begin_prompt_inv)
next
  case (ClickGenerate w)
  assume "prompt_inv p"
  with ClickGenerate show ?thesis by (simp add: clickGenerate_begin_def begin_prompt_inv)
next
  case (Settle i)
  assume "prompt_inv p"
  with Settle show ?thesis by (simp add: settle_prompt_inv)
next
  case Copy
  assume "prompt_inv p"
  with Copy show ?thesis by (auto simp: prompt_inv_def handleCopy_def)
next
  case Reset
  assume "prompt_inv p"
  with Reset show ?thesis by (simp add: prompt_inv_def resetState_def)
next
  case (TimeoutFires i)
  assume "prompt_inv p"
  with TimeoutFires show ?thesis
    by (simp add: prompt_inv_def timeout_fires_def split: option.split)
qed

lemma run_prompt_inv: "prompt_inv p \<Longrightarrow> prompt_inv (run evs p)"
  by (induction evs arbitrary: p) (simp_all add: apply_event_prompt_inv)

text \<open>
  Claim C9. After any sequence of operations from the initial page, a page in the state
  \<open>success\<close> holds a prompt that is not empty: the status becomes \<open>success\<close> only together
  with a text that the adapter returned after its test \<open>if (text)\<close>, and whatever empties
  the prompt also sets another status.
\<close>

theorem success_has_prompt:
  assumes "status (run evs initial_page) = Success"
  shows "prompt (run evs initial_page) \<noteq> []
         \<and> displayedPrompt (run evs initial_page) = Some (prompt (run evs initial_page))"
proof -
  have "prompt_inv initial_page" by (simp add: prompt_inv_def initial_page_def)
  then have "prompt_inv (run evs initial_page)" by (rule run_prompt_inv)
  with assms show ?thesis by (simp add: prompt_inv_def displayedPrompt_def)
qed

theorem success_has_prompt_witness:
  "status (run [ImageChange (Some example_file), ClickGenerate (answering_world retriever_response),
                Settle 0, Copy] initial_page) = Success
   \<and> prompt (run [ImageChange (Some example_file), ClickGenerate (answering_world retriever_response),
                Settle 0, Copy] initial_page) = ''A golden retriever...''"
proof -
  have r: "run [ImageChange (Some example_file), ClickGenerate (answering_world retriever_response),
                Settle 0, Copy] initial_page =
           initial_page\<lparr>imageFile := Some example_file, prompt := ''A golden retriever...'',
             status := Success, isCopied := True, clipboard := Some ''A golden retriever...'',
             network := [example_request], timeouts := [2000]\<rparr>"
    by (simp add: clickGenerate_begin_def generateDisabled_def handleGeneratePrompt_begin_def
        generatePromptFromImage_def try_block_def fileToGenerativePart_def Let_def truthy_def
        settle_def handleGeneratePrompt_resume_def handleCopy_def example_defs)
  have s: "status (run [ImageChange (Some example_file),
      ClickGenerate (answering_world retriever_response), Settle 0, Copy] initial_page) = Success"
    by (simp only: r) simp
  show ?thesis
    using success_has_prompt [OF s] s unfolding r by simp
qed

section \<open>What an invalid selection leaves in place\<close>

text \<open>
  Claim C10. Selecting a file that is not an image changes the error message and the status
  and nothing else: the image and the prompt held before are still there, so that a page
  in the state \<open>success\<close> keeps both while it shows the error.
\<close>

theorem invalid_file_keeps_image_and_prompt:
  assumes "\<not> startsWith (type f) ''image/''"
  shows "handleImageChange (Some f) p =
           p\<lparr>error := ''Please upload a valid image file (PNG, JPG, etc.).'', status := Error\<rparr>
         \<and> imageFile (handleImageChange (Some f) p) = imageFile p
         \<and> prompt (handleImageChange (Some f) p) = prompt p
         \<and> isCopied (handleImageChange (Some f) p) = isCopied p
         \<and> displayedError (handleImageChange (Some f) p) =
             Some ''Please upload a valid image file (PNG, JPG, etc.).''"
  using assms by (simp add: handleImageChange_def displayedError_def)

theorem invalid_file_keeps_image_and_prompt_witness:
  "\<not> startsWith (type notes_file) ''image/''
   \<and> status success_page = Success
   \<and> status (handleImageChange (Some notes_file) success_page) = Error
   \<and> imageFile (handleImageChange (Some notes_file) success_page) = Some example_file
   \<and> prompt (handleImageChange (Some notes_file) success_page) = ''A golden retriever...''"
proof -
  note sp = success_page_eq
  have n: "\<not> startsWith (type notes_file) ''image/''"
    by (simp add: notes_file_def)
  show ?thesis
    using invalid_file_keeps_image_and_prompt [OF n, of success_page] n
    by (simp add: sp initial_page_def)
qed

end
